theory Spec2Isabelle
  imports Complex_Main
begin

section \<open>Numbers\<close>

text \<open>
  The engine functions (\<open>padToPosition3D\<close>, \<open>updateSourcePosition\<close>, \<open>updateGain\<close>) only
  negate, multiply by the scale and take \<open>Math.max\<close>/\<open>Math.min\<close>. Their number arguments are
  modelled as finite numbers of type \<^typ>\<open>real\<close>; the rounding of a product is not modelled
  (negation, \<open>Math.max\<close> and \<open>Math.min\<close> are exact on doubles).

  \<open>pixelToNormalized\<close> divides by the width and height of the pad, and a division by zero
  leaves the finite numbers. Its model therefore carries the special values of a JavaScript
  number. Finite results are exact reals (no rounding), and the two zeros are identified
  (a zero divisor is taken to be \<open>+0\<close>, as the width of a bounding rectangle is).
\<close>

datatype jsnum = Finite real | PosInfinity | NegInfinity | NaN

fun js_neg :: "jsnum \<Rightarrow> jsnum" where
  "js_neg (Finite a) = Finite (- a)"
| "js_neg PosInfinity = NegInfinity"
| "js_neg NegInfinity = PosInfinity"
| "js_neg NaN = NaN"

text \<open>\<open>a / b\<close>\<close>

fun js_div :: "jsnum \<Rightarrow> jsnum \<Rightarrow> jsnum" where
  "js_div NaN b = NaN"
| "js_div a NaN = NaN"
| "js_div (Finite a) (Finite b) =
     (if b \<noteq> 0 then Finite (a / b)
      else if a = 0 then NaN
      else if 0 < a then PosInfinity else NegInfinity)"
| "js_div (Finite a) b = Finite 0"
| "js_div PosInfinity (Finite b) = (if 0 \<le> b then PosInfinity else NegInfinity)"
| "js_div NegInfinity (Finite b) = (if 0 \<le> b then NegInfinity else PosInfinity)"
| "js_div a b = NaN"

text \<open>\<open>a * b\<close>\<close>

fun js_mul :: "jsnum \<Rightarrow> jsnum \<Rightarrow> jsnum" where
  "js_mul NaN b = NaN"
| "js_mul a NaN = NaN"
| "js_mul (Finite a) (Finite b) = Finite (a * b)"
| "js_mul (Finite a) PosInfinity =
     (if a = 0 then NaN else if 0 < a then PosInfinity else NegInfinity)"
| "js_mul (Finite a) NegInfinity =
     (if a = 0 then NaN else if 0 < a then NegInfinity else PosInfinity)"
| "js_mul PosInfinity (Finite b) =
     (if b = 0 then NaN else if 0 < b then PosInfinity else NegInfinity)"
| "js_mul NegInfinity (Finite b) =
     (if b = 0 then NaN else if 0 < b then NegInfinity else PosInfinity)"
| "js_mul PosInfinity PosInfinity = PosInfinity"
| "js_mul NegInfinity NegInfinity = PosInfinity"
| "js_mul a b = NegInfinity"

text \<open>\<open>a - b\<close>\<close>

fun js_sub :: "jsnum \<Rightarrow> jsnum \<Rightarrow> jsnum" where
  "js_sub NaN b = NaN"
| "js_sub a NaN = NaN"
| "js_sub (Finite a) (Finite b) = Finite (a - b)"
| "js_sub (Finite a) PosInfinity = NegInfinity"
| "js_sub (Finite a) NegInfinity = PosInfinity"
| "js_sub PosInfinity PosInfinity = NaN"
| "js_sub NegInfinity NegInfinity = NaN"
| "js_sub PosInfinity b = PosInfinity"
| "js_sub NegInfinity b = NegInfinity"

text \<open>\<open>Math.min(a, b)\<close> and \<open>Math.max(a, b)\<close>: \<open>NaN\<close> when an argument is \<open>NaN\<close>.\<close>

fun Math_min :: "jsnum \<Rightarrow> jsnum \<Rightarrow> jsnum" where
  "Math_min NaN b = NaN"
| "Math_min a NaN = NaN"
| "Math_min NegInfinity b = NegInfinity"
| "Math_min a NegInfinity = NegInfinity"
| "Math_min PosInfinity b = b"
| "Math_min a PosInfinity = a"
| "Math_min (Finite a) (Finite b) = Finite (min a b)"

fun Math_max :: "jsnum \<Rightarrow> jsnum \<Rightarrow> jsnum" where
  "Math_max NaN b = NaN"
| "Math_max a NaN = NaN"
| "Math_max PosInfinity b = PosInfinity"
| "Math_max a PosInfinity = PosInfinity"
| "Math_max NegInfinity b = b"
| "Math_max a NegInfinity = a"
| "Math_max (Finite a) (Finite b) = Finite (max a b)"

section \<open>Coordinate mapper\<close>

subsection \<open>PositionPad.tsx: pixelToNormalized\<close>

record Position =
  x :: jsnum
  y :: jsnum

definition pixelToNormalized :: "jsnum \<Rightarrow> jsnum \<Rightarrow> jsnum \<Rightarrow> jsnum \<Rightarrow> Position" where
  "pixelToNormalized pixelX pixelY width height =
     (let x = js_sub (js_mul (js_div pixelX width) (Finite 2)) (Finite 1);
          y = js_neg (js_sub (js_mul (js_div pixelY height) (Finite 2)) (Finite 1))
      in \<lparr> x = Math_max (Finite (- 1)) (Math_min (Finite 1) x),
           y = Math_max (Finite (- 1)) (Math_min (Finite 1) y) \<rparr>)"

text \<open>A coordinate lies in the pad range when it is a finite number of \<open>[-1, 1]\<close>.\<close>

fun in_pad_range :: "jsnum \<Rightarrow> bool" where
  "in_pad_range (Finite a) = (- 1 \<le> a \<and> a \<le> 1)"
| "in_pad_range PosInfinity = False"
| "in_pad_range NegInfinity = False"
| "in_pad_range NaN = False"

subsection \<open>spatial-audio-engine: padToPosition3D\<close>

record Position3D =
  x :: real
  y :: real
  z :: real

definition padToPosition3D :: "real \<Rightarrow> real \<Rightarrow> real \<Rightarrow> Position3D" where
  "padToPosition3D padX padY height = \<lparr> x = padX, y = height, z = - padY \<rparr>"

section \<open>Web Audio objects\<close>

text \<open>
  The browser objects the engine works on, as far as the code reads or writes them.
  An \<open>AudioParam\<close> keeps the value written to its \<open>value\<close> attribute and the list of all
  operations applied to it, oldest first: a write of \<open>value\<close> is instantaneous, and
  \<open>setTargetAtTime(target, startTime, timeConstant)\<close> starts an exponential approach.
\<close>

datatype ParamEvent = ValueWrite real | SetTargetAtTime real real real

record AudioParam =
  valueAttr :: real
  events :: "ParamEvent list"

definition defaultParam :: "real \<Rightarrow> AudioParam" where
  "defaultParam d = \<lparr> valueAttr = d, events = [] \<rparr>"

text \<open>\<open>param.value = v\<close>\<close>

definition setValue :: "real \<Rightarrow> AudioParam \<Rightarrow> AudioParam" where
  "setValue v p = p\<lparr> valueAttr := v, events := events p @ [ValueWrite v] \<rparr>"

text \<open>\<open>param.setTargetAtTime(target, startTime, timeConstant)\<close>\<close>

definition setTargetAtTime :: "real \<Rightarrow> real \<Rightarrow> real \<Rightarrow> AudioParam \<Rightarrow> AudioParam" where
  "setTargetAtTime target startTime timeConstant p =
     p\<lparr> events := events p @ [SetTargetAtTime target startTime timeConstant] \<rparr>"

datatype AudioContextState = suspended | running | closed

text \<open>
  The listener of a context. A browser either has the \<open>AudioParam\<close> attributes
  \<open>positionX/Y/Z\<close> (and \<open>forwardX/Y/Z\<close>, \<open>upX/Y/Z\<close>) or lacks the group.
\<close>

record AudioListener =
  listenerPosition :: "(AudioParam \<times> AudioParam \<times> AudioParam) option"
  listenerOrientation ::
    "((AudioParam \<times> AudioParam \<times> AudioParam) \<times> (AudioParam \<times> AudioParam \<times> AudioParam)) option"

record AudioContext =
  state :: AudioContextState
  listener :: AudioListener

text \<open>A \<open>MediaStream\<close> holds its tracks; a track is named by its number.\<close>

record MediaStream =
  audioTracks :: "nat list"
  videoTracks :: "nat list"

definition getTracks :: "MediaStream \<Rightarrow> nat list" where
  "getTracks ms = audioTracks ms @ videoTracks ms"

text \<open>The inputs a node of the graph can be connected to.\<close>

datatype AudioDest = PannerInput | GainInput | Destination

record MediaStreamAudioSourceNode =
  streamOfNode :: MediaStream
  sourceOutputs :: "AudioDest set"

datatype PanningModelType = equalpower | HRTF

datatype DistanceModelType = linear_model | inverse_model | exponential_model

section \<open>spatial-audio-engine\<close>

record SpatialAudioConfig =
  maxDistance :: real
  refDistance :: real
  rolloffFactor :: real
  panningModel :: PanningModelType
  distanceModel :: DistanceModelType

definition DEFAULT_CONFIG :: SpatialAudioConfig where
  "DEFAULT_CONFIG =
     \<lparr> maxDistance = 10, refDistance = 1, rolloffFactor = 1,
       panningModel = HRTF, distanceModel = inverse_model \<rparr>"

record PannerNode =
  panningModel :: PanningModelType
  distanceModel :: DistanceModelType
  maxDistance :: real
  refDistance :: real
  rolloffFactor :: real
  coneInnerAngle :: real
  coneOuterAngle :: real
  coneOuterGain :: real
  positionX :: AudioParam
  positionY :: AudioParam
  positionZ :: AudioParam
  pannerOutputs :: "AudioDest set"

record GainNode =
  gain :: AudioParam
  gainOutputs :: "AudioDest set"

text \<open>
  \<open>SpatialAudioNodes\<close>. The contexts live in a store (a list); \<open>contextRef\<close> is the index of
  the node set's context in it.
\<close>

record SpatialAudioNodes =
  contextRef :: nat
  source :: "MediaStreamAudioSourceNode option"
  panner :: PannerNode
  gain :: GainNode

text \<open>
  What the browser does where the code cannot know it: whether \<open>new AudioContext()\<close> throws,
  whether the new context starts suspended, how \<open>context.resume()\<close> settles, which
  attribute groups the listener has, whether a \<open>PannerNode\<close> setter rejects the configuration
  and whether \<open>createMediaStreamSource\<close> throws.
\<close>

datatype Thrown = ErrorNamed string | NonError

datatype 'a Promise = Fulfilled 'a | Rejected Thrown | Pending

record Host =
  audioContextThrows :: bool
  startsSuspended :: bool
  resumeSettles :: "unit Promise"
  listenerHasPosition :: bool
  listenerHasOrientation :: bool
  pannerConfigThrows :: bool
  mediaStreamSourceThrows :: "Thrown option"

text \<open>\<open>createAudioContext()\<close>: the context \<open>new AudioContext()\<close> returns when it does not throw.\<close>

definition createAudioContext :: "Host \<Rightarrow> AudioContext" where
  "createAudioContext h =
     \<lparr> state = (if startsSuspended h then suspended else running),
       listener =
         \<lparr> listenerPosition =
             (if listenerHasPosition h
              then Some (defaultParam 0, defaultParam 0, defaultParam 0) else None),
           listenerOrientation =
             (if listenerHasOrientation h
              then Some ((defaultParam 0, defaultParam 0, defaultParam (- 1)),
                         (defaultParam 0, defaultParam 1, defaultParam 0))
              else None) \<rparr> \<rparr>"

text \<open>\<open>resumeAudioContext(context)\<close>, on the store; \<open>c\<close> is the context.\<close>

definition resumeAudioContext :: "Host \<Rightarrow> nat \<Rightarrow> AudioContext list \<Rightarrow> AudioContext list Promise" where
  "resumeAudioContext h c cs =
     (if c < length cs \<and> state (cs ! c) = suspended
      then (case resumeSettles h of
              Fulfilled u \<Rightarrow> Fulfilled (cs[c := (cs ! c)\<lparr> state := running \<rparr>])
            | Rejected e \<Rightarrow> Rejected e
            | Pending \<Rightarrow> Pending)
      else Fulfilled cs)"

definition createPannerNode :: "SpatialAudioConfig \<Rightarrow> PannerNode" where
  "createPannerNode config =
     \<lparr> panningModel = SpatialAudioConfig.panningModel config,
       distanceModel = SpatialAudioConfig.distanceModel config,
       maxDistance = SpatialAudioConfig.maxDistance config,
       refDistance = SpatialAudioConfig.refDistance config,
       rolloffFactor = SpatialAudioConfig.rolloffFactor config,
       coneInnerAngle = 360,
       coneOuterAngle = 360,
       coneOuterGain = 0,
       positionX = setValue 0 (defaultParam 0),
       positionY = setValue 0 (defaultParam 0),
       positionZ = setValue 1 (defaultParam 0),
       pannerOutputs = {} \<rparr>"

definition createGainNode :: "real \<Rightarrow> GainNode" where
  "createGainNode initialGain =
     \<lparr> GainNode.gain = setValue initialGain (defaultParam 1), gainOutputs = {} \<rparr>"

definition createMediaStreamSource :: "MediaStream \<Rightarrow> MediaStreamAudioSourceNode" where
  "createMediaStreamSource stream = \<lparr> streamOfNode = stream, sourceOutputs = {} \<rparr>"

definition connectAudioGraph :: "SpatialAudioNodes \<Rightarrow> SpatialAudioNodes" where
  "connectAudioGraph nodes =
     (case source nodes of
        None \<Rightarrow> nodes
      | Some src \<Rightarrow>
          nodes\<lparr> source := Some (src\<lparr> sourceOutputs := insert PannerInput (sourceOutputs src) \<rparr>),
                 panner := (panner nodes)\<lparr> pannerOutputs :=
                             insert GainInput (pannerOutputs (panner nodes)) \<rparr>,
                 SpatialAudioNodes.gain := (SpatialAudioNodes.gain nodes)\<lparr> gainOutputs :=
                             insert Destination (gainOutputs (SpatialAudioNodes.gain nodes)) \<rparr> \<rparr>)"

definition disconnectAudioGraph :: "SpatialAudioNodes \<Rightarrow> SpatialAudioNodes" where
  "disconnectAudioGraph nodes =
     nodes\<lparr> source := map_option (\<lambda>src. src\<lparr> sourceOutputs := {} \<rparr>) (source nodes),
            panner := (panner nodes)\<lparr> pannerOutputs := {} \<rparr>,
            SpatialAudioNodes.gain := (SpatialAudioNodes.gain nodes)\<lparr> gainOutputs := {} \<rparr> \<rparr>"

text \<open>
  \<open>updateSourcePosition(panner, position, scale)\<close>; \<open>now\<close> is the value of
  \<open>panner.context.currentTime\<close> the call reads.
\<close>

definition updateSourcePosition :: "real \<Rightarrow> PannerNode \<Rightarrow> Position3D \<Rightarrow> real \<Rightarrow> PannerNode" where
  "updateSourcePosition now pn position scale =
     (let x = Position3D.x position * scale;
          y = Position3D.y position * scale;
          z = Position3D.z position * scale;
          currentTime = now
      in pn\<lparr> positionX := setTargetAtTime x currentTime 0.02 (positionX pn),
              positionY := setTargetAtTime y currentTime 0.02 (positionY pn),
              positionZ := setTargetAtTime z currentTime 0.02 (positionZ pn) \<rparr>)"

text \<open>\<open>updateGain(gain, value)\<close>; \<open>now\<close> is the value of \<open>gain.context.currentTime\<close>.\<close>

definition updateGain :: "real \<Rightarrow> GainNode \<Rightarrow> real \<Rightarrow> GainNode" where
  "updateGain now g v =
     (let clampedValue = max 0 (min 1 v);
          currentTime = now
      in g\<lparr> GainNode.gain := setTargetAtTime clampedValue currentTime 0.02 (GainNode.gain g) \<rparr>)"

definition setListenerPosition ::
    "AudioContext \<Rightarrow> Position3D \<Rightarrow> Position3D \<Rightarrow> Position3D \<Rightarrow> AudioContext" where
  "setListenerPosition ctx position forward up =
     (let l = listener ctx;
          l1 = (case listenerPosition l of
                  None \<Rightarrow> l
                | Some (px, py, pz) \<Rightarrow>
                    l\<lparr> listenerPosition :=
                         Some (setValue (Position3D.x position) px,
                               setValue (Position3D.y position) py,
                               setValue (Position3D.z position) pz) \<rparr>);
          l2 = (case listenerOrientation l1 of
                  None \<Rightarrow> l1
                | Some ((fx, fy, fz), (ux, uy, uz)) \<Rightarrow>
                    l1\<lparr> listenerOrientation :=
                          Some ((setValue (Position3D.x forward) fx,
                                 setValue (Position3D.y forward) fy,
                                 setValue (Position3D.z forward) fz),
                                (setValue (Position3D.x up) ux,
                                 setValue (Position3D.y up) uy,
                                 setValue (Position3D.z up) uz)) \<rparr>)
      in ctx\<lparr> listener := l2 \<rparr>)"

text \<open>\<open>closeAudioContext(context)\<close>, on the store: \<open>context.close()\<close> closes the context.\<close>

definition closeAudioContext :: "nat \<Rightarrow> AudioContext list \<Rightarrow> AudioContext list" where
  "closeAudioContext c cs = (if c < length cs then cs[c := (cs ! c)\<lparr> state := closed \<rparr>] else cs)"

section \<open>use-spatial-audio\<close>

datatype SpatialAudioStatus = idle | initializing | ready | active | error

text \<open>\<open>Partial<SpatialAudioConfig>\<close>: every field may be absent.\<close>

record PartialSpatialAudioConfig =
  maxDistance_opt :: "real option"
  refDistance_opt :: "real option"
  rolloffFactor_opt :: "real option"
  panningModel_opt :: "PanningModelType option"
  distanceModel_opt :: "DistanceModelType option"

text \<open>\<open>{ ...DEFAULT_CONFIG, ...config }\<close>\<close>

definition mergeConfig :: "SpatialAudioConfig \<Rightarrow> PartialSpatialAudioConfig \<Rightarrow> SpatialAudioConfig" where
  "mergeConfig d config =
     \<lparr> SpatialAudioConfig.maxDistance =
         (case maxDistance_opt config of None \<Rightarrow> SpatialAudioConfig.maxDistance d | Some v \<Rightarrow> v),
       refDistance =
         (case refDistance_opt config of None \<Rightarrow> SpatialAudioConfig.refDistance d | Some v \<Rightarrow> v),
       rolloffFactor =
         (case rolloffFactor_opt config of None \<Rightarrow> SpatialAudioConfig.rolloffFactor d | Some v \<Rightarrow> v),
       panningModel =
         (case panningModel_opt config of None \<Rightarrow> SpatialAudioConfig.panningModel d | Some v \<Rightarrow> v),
       distanceModel =
         (case distanceModel_opt config of None \<Rightarrow> SpatialAudioConfig.distanceModel d | Some v \<Rightarrow> v) \<rparr>"

text \<open>The options of the hook, with their defaults \<open>config = {}\<close> and \<open>initialGain = 1\<close>.\<close>

record UseSpatialAudioOptions =
  config :: PartialSpatialAudioConfig
  initialGain :: real

definition defaultOptions :: UseSpatialAudioOptions where
  "defaultOptions =
     \<lparr> config = \<lparr> maxDistance_opt = None, refDistance_opt = None, rolloffFactor_opt = None,
                  panningModel_opt = None, distanceModel_opt = None \<rparr>,
       initialGain = 1 \<rparr>"

text \<open>
  The state of one \<open>useSpatialAudio\<close> instance: the three \<open>useState\<close> values, the two refs, and
  the store of the audio contexts created so far (an object of the browser, which outlives the
  reference the hook holds to it).

  An asynchronous operation is modelled as one step from its call to its last effect, with the
  outcome of each \<open>await\<close> given by the host: no other operation runs in between (the start
  control is inert while a start is pending).
\<close>

record SpatialAudio =
  status :: SpatialAudioStatus
  position :: Position3D
  gain :: real
  nodesRef :: "SpatialAudioNodes option"
  streamRef :: "MediaStream option"
  contexts :: "AudioContext list"

definition useSpatialAudio :: "UseSpatialAudioOptions \<Rightarrow> SpatialAudio" where
  "useSpatialAudio options =
     \<lparr> status = SpatialAudioStatus.idle,
       position = \<lparr> x = 0, y = 0, z = 1 \<rparr>,
       gain = initialGain options,
       nodesRef = None,
       streamRef = None,
       contexts = [] \<rparr>"

text \<open>
  \<open>initialize()\<close>. The result is the settlement of the promise it returns: \<open>Pending\<close> when
  \<open>context.resume()\<close> never settles. Every exception of the \<open>try\<close> block ends in the \<open>catch\<close>.
\<close>

definition initialize :: "UseSpatialAudioOptions \<Rightarrow> Host \<Rightarrow> SpatialAudio \<Rightarrow> bool Promise \<times> SpatialAudio" where
  "initialize options h s =
     (if nodesRef s \<noteq> None then (Fulfilled True, s)
      else
        let s1 = s\<lparr> status := initializing \<rparr> in
        if audioContextThrows h then (Fulfilled False, s1\<lparr> status := SpatialAudioStatus.error \<rparr>)
        else
          let c = length (contexts s1);
              s2 = s1\<lparr> contexts := contexts s1 @ [createAudioContext h] \<rparr>
          in (case resumeAudioContext h c (contexts s2) of
                Pending \<Rightarrow> (Pending, s2)
              | Rejected e \<Rightarrow> (Fulfilled False, s2\<lparr> status := SpatialAudioStatus.error \<rparr>)
              | Fulfilled cs \<Rightarrow>
                  let s3 = s2\<lparr> contexts := cs \<rparr>;
                      mergedConfig = mergeConfig DEFAULT_CONFIG (config options)
                  in if pannerConfigThrows h
                     then (Fulfilled False, s3\<lparr> status := SpatialAudioStatus.error \<rparr>)
                     else
                       let pn = createPannerNode mergedConfig;
                           gainNode = createGainNode (initialGain options);
                           cs' = (contexts s3)[c := setListenerPosition (contexts s3 ! c)
                                   \<lparr> x = 0, y = 0, z = 0 \<rparr> \<lparr> x = 0, y = 0, z = - 1 \<rparr>
                                   \<lparr> x = 0, y = 1, z = 0 \<rparr>]
                       in (Fulfilled True,
                           s3\<lparr> contexts := cs',
                               nodesRef := Some \<lparr> contextRef = c, source = None, panner = pn,
                                                 gain = gainNode \<rparr>,
                               status := ready \<rparr>)))"

text \<open>
  \<open>connectStream(stream)\<close>. The first component is the exception the call throws, if any:
  \<open>createMediaStreamSource\<close> is not inside a \<open>try\<close>.
\<close>

definition connectStream :: "Host \<Rightarrow> MediaStream \<Rightarrow> SpatialAudio \<Rightarrow> Thrown option \<times> SpatialAudio" where
  "connectStream h stream s =
     (case nodesRef s of
        None \<Rightarrow> (None, s)
      | Some nodes \<Rightarrow>
          let nodes1 = (if source nodes \<noteq> None then disconnectAudioGraph nodes else nodes) in
          (case mediaStreamSourceThrows h of
             Some e \<Rightarrow> (Some e, s\<lparr> nodesRef := Some nodes1 \<rparr>)
           | None \<Rightarrow>
               let nodes2 = nodes1\<lparr> source := Some (createMediaStreamSource stream) \<rparr>;
                   nodes3 = connectAudioGraph nodes2
               in (None, s\<lparr> nodesRef := Some nodes3, streamRef := Some stream,
                             status := active \<rparr>)))"

definition disconnectStream :: "SpatialAudio \<Rightarrow> SpatialAudio" where
  "disconnectStream s =
     (case nodesRef s of
        None \<Rightarrow> s
      | Some nodes \<Rightarrow>
          (case source nodes of
             None \<Rightarrow> s
           | Some src \<Rightarrow>
               s\<lparr> nodesRef := Some ((disconnectAudioGraph nodes)\<lparr> source := None \<rparr>),
                   streamRef := None,
                   status := ready \<rparr>))"

text \<open>\<open>setPosition(x, y, height)\<close>; \<open>now\<close> is the context time the call reads.\<close>

definition setPosition :: "real \<Rightarrow> real \<Rightarrow> real \<Rightarrow> real \<Rightarrow> SpatialAudio \<Rightarrow> SpatialAudio" where
  "setPosition now a b height s =
     (case nodesRef s of
        None \<Rightarrow> s
      | Some nodes \<Rightarrow>
          let pos = padToPosition3D a b height
          in s\<lparr> nodesRef := Some (nodes\<lparr> panner := updateSourcePosition now (panner nodes) pos 5 \<rparr>),
                 position := pos \<rparr>)"

text \<open>\<open>setGain(value)\<close>; \<open>now\<close> is the context time the call reads.\<close>

definition setGain :: "real \<Rightarrow> real \<Rightarrow> SpatialAudio \<Rightarrow> SpatialAudio" where
  "setGain now v s =
     (case nodesRef s of
        None \<Rightarrow> s
      | Some nodes \<Rightarrow>
          s\<lparr> nodesRef := Some (nodes\<lparr> SpatialAudioNodes.gain :=
                                      updateGain now (SpatialAudioNodes.gain nodes) v \<rparr>),
              gain := v \<rparr>)"

definition cleanup :: "SpatialAudio \<Rightarrow> SpatialAudio" where
  "cleanup s =
     (case nodesRef s of
        None \<Rightarrow> s
      | Some nodes \<Rightarrow>
          let nodes1 = (if source nodes \<noteq> None then disconnectAudioGraph nodes else nodes)
          in s\<lparr> contexts := closeAudioContext (contextRef nodes1) (contexts s),
                 nodesRef := None,
                 streamRef := None,
                 status := SpatialAudioStatus.idle \<rparr>)"

section \<open>use-tab-audio-capture\<close>

datatype CaptureStatus = idle | requesting | capturing | error

datatype CaptureError = not_supported | permission_denied | no_audio | unknown

text \<open>
  The state of one \<open>useTabAudioCapture\<close> instance: the four \<open>useState\<close> values and the ref,
  and on the browser's side the tracks that \<open>track.stop()\<close> has stopped, the tracks that carry
  the hook's \<open>ended\<close> listener, and the number of \<open>getDisplayMedia\<close> calls made (each one
  is a permission request).
\<close>

record TabAudioCapture =
  status :: CaptureStatus
  error :: "CaptureError option"
  stream :: "MediaStream option"
  isSupported :: bool
  streamRef :: "MediaStream option"
  stoppedTracks :: "nat set"
  endedListeners :: "nat set"
  displayMediaRequests :: nat

definition useTabAudioCapture :: TabAudioCapture where
  "useTabAudioCapture =
     \<lparr> status = CaptureStatus.idle, error = None, stream = None, isSupported = True,
       streamRef = None, stoppedTracks = {}, endedListeners = {}, displayMediaRequests = 0 \<rparr>"

text \<open>The effect that runs once on the client: \<open>setIsSupported(supported)\<close>.\<close>

definition checkSupport :: "bool \<Rightarrow> TabAudioCapture \<Rightarrow> TabAudioCapture" where
  "checkSupport supported s = s\<lparr> isSupported := supported \<rparr>"

text \<open>The \<open>catch\<close> block of \<open>startCapture\<close>: the error it records for what was thrown.\<close>

definition classifyThrown :: "Thrown \<Rightarrow> CaptureError" where
  "classifyThrown err =
     (case err of
        ErrorNamed name \<Rightarrow>
          if name = ''NotAllowedError'' \<or> name = ''PermissionDeniedError'' then permission_denied
          else if name = ''NotFoundError'' then no_audio
          else unknown
      | NonError \<Rightarrow> unknown)"

text \<open>
  \<open>startCapture()\<close> of \<open>components/features/custom-asmr-player/hooks/use-tab-audio-capture.ts\<close>;
  \<open>g\<close> is how the call of \<open>getDisplayMedia\<close> settles, if the call is made.
\<close>

definition startCapture ::
    "MediaStream Promise \<Rightarrow> TabAudioCapture \<Rightarrow> MediaStream option Promise \<times> TabAudioCapture" where
  "startCapture g s =
     (if \<not> isSupported s
      then (Fulfilled None,
            s\<lparr> status := CaptureStatus.error, error := Some not_supported \<rparr>)
      else
        (case TabAudioCapture.streamRef s of
           Some existing \<Rightarrow> (Fulfilled (Some existing), s)
         | None \<Rightarrow>
             let s1 = s\<lparr> status := requesting, error := None,
                          displayMediaRequests := displayMediaRequests s + 1 \<rparr>
             in (case g of
                   Pending \<Rightarrow> (Pending, s1)
                 | Rejected err \<Rightarrow>
                     (Fulfilled None,
                      s1\<lparr> error := Some (classifyThrown err), status := CaptureStatus.error \<rparr>)
                 | Fulfilled mediaStream \<Rightarrow>
                     (case audioTracks mediaStream of
                        [] \<Rightarrow>
                          (Fulfilled None,
                           s1\<lparr> stoppedTracks := stoppedTracks s1 \<union> set (getTracks mediaStream),
                               status := CaptureStatus.error, error := Some no_audio \<rparr>)
                      | track0 # others \<Rightarrow>
                          (Fulfilled (Some mediaStream),
                           s1\<lparr> endedListeners := insert track0 (endedListeners s1),
                               streamRef := Some mediaStream,
                               stream := Some mediaStream,
                               status := capturing \<rparr>)))))"

text \<open>
  \<open>startCapture()\<close> of \<open>hooks/use-tab-audio-capture.ts\<close>: it stops the video tracks and
  returns a new stream of the audio tracks only.
\<close>

definition startCapture_hooks ::
    "MediaStream Promise \<Rightarrow> TabAudioCapture \<Rightarrow> MediaStream option Promise \<times> TabAudioCapture" where
  "startCapture_hooks g s =
     (if \<not> isSupported s
      then (Fulfilled None,
            s\<lparr> status := CaptureStatus.error, error := Some not_supported \<rparr>)
      else
        (case TabAudioCapture.streamRef s of
           Some existing \<Rightarrow> (Fulfilled (Some existing), s)
         | None \<Rightarrow>
             let s1 = s\<lparr> status := requesting, error := None,
                          displayMediaRequests := displayMediaRequests s + 1 \<rparr>
             in (case g of
                   Pending \<Rightarrow> (Pending, s1)
                 | Rejected err \<Rightarrow>
                     (Fulfilled None,
                      s1\<lparr> error := Some (classifyThrown err), status := CaptureStatus.error \<rparr>)
                 | Fulfilled mediaStream \<Rightarrow>
                     (case audioTracks mediaStream of
                        [] \<Rightarrow>
                          (Fulfilled None,
                           s1\<lparr> stoppedTracks := stoppedTracks s1 \<union> set (getTracks mediaStream),
                               status := CaptureStatus.error, error := Some no_audio \<rparr>)
                      | track0 # others \<Rightarrow>
                          let audioOnlyStream =
                                \<lparr> audioTracks = audioTracks mediaStream, videoTracks = [] \<rparr>
                          in (Fulfilled (Some audioOnlyStream),
                              s1\<lparr> stoppedTracks := stoppedTracks s1 \<union> set (videoTracks mediaStream),
                                  endedListeners := insert track0 (endedListeners s1),
                                  streamRef := Some audioOnlyStream,
                                  stream := Some audioOnlyStream,
                                  status := capturing \<rparr>)))))"

definition stopCapture :: "TabAudioCapture \<Rightarrow> TabAudioCapture" where
  "stopCapture s =
     (let s1 = (case TabAudioCapture.streamRef s of
                  None \<Rightarrow> s
                | Some current \<Rightarrow>
                    s\<lparr> stoppedTracks := stoppedTracks s \<union> set (getTracks current),
                        streamRef := None \<rparr>)
      in s1\<lparr> stream := None, status := CaptureStatus.idle, error := None \<rparr>)"

text \<open>
  The \<open>ended\<close> event of track \<open>t\<close> (the browser ends the track, for instance when the user
  stops sharing): the listener \<open>startCapture\<close> put on the first audio track runs.
\<close>

definition trackEnded :: "nat \<Rightarrow> TabAudioCapture \<Rightarrow> TabAudioCapture" where
  "trackEnded t s =
     (if t \<in> endedListeners s
      then s\<lparr> status := CaptureStatus.idle, stream := None, streamRef := None \<rparr>
      else s)"

section \<open>AudioControls: what the status display shows\<close>

text \<open>
  The texts of \<open>getStatusText\<close>, in its order: "error", "waiting for permission...",
  "initializing...", "3D audio enabled", "ready", "standing by".
\<close>

datatype StatusText =
  TextError | TextRequesting | TextInitializing | TextActive | TextReady | TextStandby

definition getStatusText :: "CaptureStatus \<Rightarrow> SpatialAudioStatus \<Rightarrow> StatusText" where
  "getStatusText captureStatus spatialStatus =
     (if captureStatus = CaptureStatus.error then TextError
      else if captureStatus = requesting then TextRequesting
      else if spatialStatus = initializing then TextInitializing
      else if spatialStatus = active then TextActive
      else if spatialStatus = ready then TextReady
      else TextStandby)"

definition isActive :: "SpatialAudioStatus \<Rightarrow> bool" where
  "isActive spatialStatus = (spatialStatus = active)"

definition isLoading :: "CaptureStatus \<Rightarrow> SpatialAudioStatus \<Rightarrow> bool" where
  "isLoading captureStatus spatialStatus =
     (captureStatus = requesting \<or> spatialStatus = initializing)"

definition canStart :: "bool \<Rightarrow> CaptureStatus \<Rightarrow> SpatialAudioStatus \<Rightarrow> bool" where
  "canStart supported captureStatus spatialStatus =
     (supported \<and> \<not> isActive spatialStatus \<and> \<not> isLoading captureStatus spatialStatus)"

definition canStop :: "SpatialAudioStatus \<Rightarrow> bool" where
  "canStop spatialStatus = isActive spatialStatus"

section \<open>CustomAsmrPlayer\<close>

text \<open>The component holds one capture hook and one engine hook, the latter with no options.\<close>

record CustomAsmrPlayer =
  capture :: TabAudioCapture
  spatial :: SpatialAudio

definition mountPlayer :: CustomAsmrPlayer where
  "mountPlayer = \<lparr> capture = useTabAudioCapture, spatial = useSpatialAudio defaultOptions \<rparr>"

text \<open>
  \<open>handleStart()\<close>; \<open>h\<close> is the host of the engine calls and \<open>g\<close> the settlement of
  \<open>getDisplayMedia\<close>. The first component is the settlement of the promise \<open>handleStart\<close>
  returns: rejected when \<open>connectStream\<close> throws, pending when an \<open>await\<close> never settles.
\<close>

definition handleStart ::
    "Host \<Rightarrow> MediaStream Promise \<Rightarrow> CustomAsmrPlayer \<Rightarrow> unit Promise \<times> CustomAsmrPlayer" where
  "handleStart h g p =
     (case initialize defaultOptions h (spatial p) of
        (Pending, e) \<Rightarrow> (Pending, p\<lparr> spatial := e \<rparr>)
      | (Rejected err, e) \<Rightarrow> (Rejected err, p\<lparr> spatial := e \<rparr>)
      | (Fulfilled initialized, e) \<Rightarrow>
          if \<not> initialized then (Fulfilled (), p\<lparr> spatial := e \<rparr>)
          else
            (case startCapture g (capture p) of
               (Pending, c) \<Rightarrow> (Pending, p\<lparr> spatial := e, capture := c \<rparr>)
             | (Rejected err, c) \<Rightarrow> (Rejected err, p\<lparr> spatial := e, capture := c \<rparr>)
             | (Fulfilled None, c) \<Rightarrow> (Fulfilled (), p\<lparr> spatial := e, capture := c \<rparr>)
             | (Fulfilled (Some captured), c) \<Rightarrow>
                 (case connectStream h captured e of
                    (Some err, e') \<Rightarrow> (Rejected err, p\<lparr> spatial := e', capture := c \<rparr>)
                  | (None, e') \<Rightarrow> (Fulfilled (), p\<lparr> spatial := e', capture := c \<rparr>))))"

definition handleStop :: "CustomAsmrPlayer \<Rightarrow> CustomAsmrPlayer" where
  "handleStop p =
     (let e1 = disconnectStream (spatial p);
          c1 = stopCapture (capture p);
          e2 = cleanup e1
      in p\<lparr> spatial := e2, capture := c1 \<rparr>)"

text \<open>The text the status display of the player shows.\<close>

definition statusText :: "CustomAsmrPlayer \<Rightarrow> StatusText" where
  "statusText p =
     getStatusText (TabAudioCapture.status (capture p)) (SpatialAudio.status (spatial p))"

section \<open>Auxiliary definitions for the statements\<close>

text \<open>The state of context \<open>c\<close> of the store, if there is such a context.\<close>

definition contextState :: "SpatialAudio \<Rightarrow> nat \<Rightarrow> AudioContextState option" where
  "contextState s c = (if c < length (contexts s) then Some (state (contexts s ! c)) else None)"

text \<open>
  A browser in which every call succeeds (the context starts suspended and resumes), and a
  captured tab stream with one audio and one video track.
\<close>

definition hostOk :: Host where
  "hostOk =
     \<lparr> audioContextThrows = False, startsSuspended = True, resumeSettles = Fulfilled (),
       listenerHasPosition = True, listenerHasOrientation = True, pannerConfigThrows = False,
       mediaStreamSourceThrows = None \<rparr>"

definition tabStream :: MediaStream where
  "tabStream = \<lparr> audioTracks = [1], videoTracks = [2] \<rparr>"

text \<open>
  The updates of the live graph: a call of \<open>setPosition(x, y, height)\<close> or of
  \<open>setGain(value)\<close>, each with the context time it reads.
\<close>

datatype Update = PositionUpdate real real real real | GainUpdate real real

fun applyUpdate :: "Update \<Rightarrow> SpatialAudio \<Rightarrow> SpatialAudio" where
  "applyUpdate (PositionUpdate now a b height) s = setPosition now a b height s"
| "applyUpdate (GainUpdate now v) s = setGain now v s"

text \<open>A ramp with the time constant of 20 ms; a write of \<open>value\<close> is none.\<close>

fun isRamp20ms :: "ParamEvent \<Rightarrow> bool" where
  "isRamp20ms (ValueWrite v) = False"
| "isRamp20ms (SetTargetAtTime target startTime timeConstant) = (timeConstant = 0.02)"

text \<open>
  Parameter \<open>new\<close> is \<open>old\<close> after smoothed updates only: its \<open>value\<close> attribute was not
  written, and all it has more than \<open>old\<close> are ramps with the 20 ms time constant.
\<close>

definition smoothed :: "AudioParam \<Rightarrow> AudioParam \<Rightarrow> bool" where
  "smoothed old new =
     (valueAttr new = valueAttr old \<and>
      take (length (events old)) (events new) = events old \<and>
      list_all isRamp20ms (drop (length (events old)) (events new)))"

definition nodesSmoothed :: "SpatialAudioNodes \<Rightarrow> SpatialAudioNodes \<Rightarrow> bool" where
  "nodesSmoothed old new =
     (smoothed (positionX (panner old)) (positionX (panner new)) \<and>
      smoothed (positionY (panner old)) (positionY (panner new)) \<and>
      smoothed (positionZ (panner old)) (positionZ (panner new)) \<and>
      smoothed (GainNode.gain (SpatialAudioNodes.gain old)) (GainNode.gain (SpatialAudioNodes.gain new)))"

text \<open>
  How the call of \<open>getDisplayMedia\<close> settles: in a browser without it the call throws a
  \<open>TypeError\<close> (inside the \<open>try\<close> block), in a browser with it the call settles as \<open>g\<close>.
\<close>

definition getDisplayMedia :: "bool \<Rightarrow> MediaStream Promise \<Rightarrow> MediaStream Promise" where
  "getDisplayMedia supported g = (if supported then g else Rejected (ErrorNamed ''TypeError''))"

text \<open>
  The states a capture hook reaches in a browser that supports \<open>getDisplayMedia\<close> or does
  not: from the initial state by the support check, calls of \<open>startCapture\<close> (either
  version) and \<open>stopCapture\<close>, and \<open>ended\<close> events.
\<close>

inductive_set captureReachable :: "bool \<Rightarrow> TabAudioCapture set" for supported :: bool where
  mounted: "useTabAudioCapture \<in> captureReachable supported"
| checked: "s \<in> captureReachable supported \<Longrightarrow> checkSupport supported s \<in> captureReachable supported"
| started: "s \<in> captureReachable supported \<Longrightarrow>
     snd (startCapture (getDisplayMedia supported g) s) \<in> captureReachable supported"
| started_hooks: "s \<in> captureReachable supported \<Longrightarrow>
     snd (startCapture_hooks (getDisplayMedia supported g) s) \<in> captureReachable supported"
| stopped: "s \<in> captureReachable supported \<Longrightarrow> stopCapture s \<in> captureReachable supported"
| ended: "s \<in> captureReachable supported \<Longrightarrow> trackEnded t s \<in> captureReachable supported"

text \<open>
  The \<open>ended\<close> event of a track, seen from the player: the listener of the capture hook runs;
  the component registers no handler of its own and calls nothing on the engine.
\<close>

definition playerTrackEnded :: "nat \<Rightarrow> CustomAsmrPlayer \<Rightarrow> CustomAsmrPlayer" where
  "playerTrackEnded t p = p\<lparr> capture := trackEnded t (capture p) \<rparr>"

section \<open>Properties\<close>

text \<open>
  C2. For all finite \<open>x\<close>, \<open>y\<close> and \<open>h\<close>, \<open>padToPosition3D(x, y, h)\<close> has \<open>x\<close> component \<open>x\<close>,
  \<open>y\<close> component \<open>h\<close> and \<open>z\<close> component exactly \<open>-y\<close>.
\<close>

theorem padToPosition3D_components:
  "Position3D.x (padToPosition3D a b h) = a \<and>
   Position3D.y (padToPosition3D a b h) = h \<and>
   Position3D.z (padToPosition3D a b h) = - b"
  by (simp add: padToPosition3D_def)

text \<open>
  C5. On a pad of positive width and height, every finite pixel input, inside the rectangle
  or not, is mapped to a position with both coordinates in \<open>[-1, 1]\<close>: the affine map with
  the centre of the pad at the origin and the Y axis inverted, clamped. Input left of or above
  the pad gives \<open>x = -1\<close> resp. \<open>y = 1\<close>, input right of or below it \<open>x = 1\<close> resp. \<open>y = -1\<close>;
  no input is rejected.
\<close>

theorem pixelToNormalized_clamped:
  assumes "0 < width" and "0 < height"
  shows "(let p = pixelToNormalized (Finite pixelX) (Finite pixelY) (Finite width) (Finite height) in
          in_pad_range (Position.x p) \<and> in_pad_range (Position.y p) \<and>
          Position.x p = Finite (max (- 1) (min 1 (2 * pixelX / width - 1))) \<and>
          Position.y p = Finite (max (- 1) (min 1 (1 - 2 * pixelY / height))) \<and>
          (pixelX \<le> 0 \<longrightarrow> Position.x p = Finite (- 1)) \<and>
          (width \<le> pixelX \<longrightarrow> Position.x p = Finite 1) \<and>
          (pixelY \<le> 0 \<longrightarrow> Position.y p = Finite 1) \<and>
          (height \<le> pixelY \<longrightarrow> Position.y p = Finite (- 1))) \<and>
         pixelToNormalized (Finite (width / 2)) (Finite (height / 2)) (Finite width) (Finite height)
           = \<lparr> Position.x = Finite 0, y = Finite 0 \<rparr>"
proof -
  have x_over: "1 \<le> 2 * pixelX / width - 1" if "width \<le> pixelX"
  proof -
    from that assms have "1 \<le> pixelX / width" by (simp add: le_divide_eq)
    then show ?thesis by simp
  qed
  have x_under: "2 * pixelX / width - 1 \<le> - 1" if "pixelX \<le> 0"
  proof -
    from that assms have "pixelX / width \<le> 0" by (simp add: divide_le_0_iff)
    then show ?thesis by simp
  qed
  have y_over: "1 - 2 * pixelY / height \<le> - 1" if "height \<le> pixelY"
  proof -
    from that assms have "1 \<le> pixelY / height" by (simp add: le_divide_eq)
    then show ?thesis by simp
  qed
  have y_under: "1 \<le> 1 - 2 * pixelY / height" if "pixelY \<le> 0"
  proof -
    from that assms have "pixelY / height \<le> 0" by (simp add: divide_le_0_iff)
    then show ?thesis by simp
  qed
  from assms x_over x_under y_over y_under show ?thesis
    by (auto simp: pixelToNormalized_def Let_def algebra_simps min_def max_def)
qed


theorem pixelToNormalized_clamped_witness:
  "pixelToNormalized (Finite 150) (Finite (- 20)) (Finite 100) (Finite 100)
     = \<lparr> Position.x = Finite 1, y = Finite 1 \<rparr> \<and>
   pixelToNormalized (Finite (- 30)) (Finite 250) (Finite 100) (Finite 200)
     = \<lparr> Position.x = Finite (- 1), y = Finite (- 1) \<rparr> \<and>
   pixelToNormalized (Finite 75) (Finite 50) (Finite 100) (Finite 200)
     = \<lparr> Position.x = Finite (1 / 2), y = Finite (1 / 2) \<rparr> \<and>
   pixelToNormalized (Finite 50) (Finite 100) (Finite 100) (Finite 200)
     = \<lparr> Position.x = Finite 0, y = Finite 0 \<rparr>"
  using pixelToNormalized_clamped [of 100 100 150 "- 20"]
        pixelToNormalized_clamped [of 100 200 "- 30" 250]
        pixelToNormalized_clamped [of 100 200 75 50]
  by (simp add: Let_def Position.equality)

text \<open>
  The positive size of the pad is needed: on a pad of width and height \<open>0\<close> the pixel
  \<open>(0, 0)\<close> is mapped to \<open>NaN\<close> coordinates, since \<open>0 / 0\<close> is \<open>NaN\<close> and \<open>Math.min\<close> and
  \<open>Math.max\<close> return \<open>NaN\<close> for it.
\<close>

lemma pixelToNormalized_empty_pad:
  "pixelToNormalized (Finite 0) (Finite 0) (Finite 0) (Finite 0) = \<lparr> Position.x = NaN, y = NaN \<rparr>"
  by (simp add: pixelToNormalized_def)

text \<open>What a successful \<open>initialize\<close> of an engine that holds no nodes leaves behind.\<close>

lemma initialize_success:
  assumes "nodesRef s0 = None" "initialize options h s0 = (Fulfilled True, s1)"
  shows "SpatialAudio.status s1 = ready"
    and "\<exists>nodes. nodesRef s1 = Some nodes \<and> source nodes = None \<and>
           contextRef nodes = length (contexts s0) \<and>
           pannerOutputs (panner nodes) = {} \<and> gainOutputs (SpatialAudioNodes.gain nodes) = {}"
    and "contextState s1 (length (contexts s0)) = Some running"
    and "SpatialAudio.streamRef s1 = SpatialAudio.streamRef s0"
  using assms
  by (auto simp: initialize_def Let_def resumeAudioContext_def createAudioContext_def contextState_def
      createPannerNode_def createGainNode_def setListenerPosition_def nth_append
      split: if_splits Promise.splits option.splits prod.splits)

text \<open>
  C1. Scenario A: from idle, a successful \<open>initialize\<close> gives status \<open>ready\<close>;
  \<open>connectStream(stream)\<close> (the browser creating the source node) gives \<open>active\<close>;
  \<open>disconnectStream()\<close> gives \<open>ready\<close> again, with the node set as it was after
  \<open>initialize\<close> (panner, gain node, no source) and its context running; \<open>cleanup()\<close> gives
  \<open>idle\<close>, drops the nodes and closes the context.
\<close>

theorem lifecycle_scenario_A:
  assumes "SpatialAudio.status s0 = SpatialAudioStatus.idle" and "nodesRef s0 = None"
    and "initialize options h s0 = (Fulfilled True, s1)"
    and "mediaStreamSourceThrows h' = None"
  shows "\<exists>nodes.
           SpatialAudio.status s1 = ready \<and> nodesRef s1 = Some nodes \<and>
           (let (thrown, s2) = connectStream h' ms s1;
                s3 = disconnectStream s2;
                s4 = cleanup s3
            in thrown = None \<and> SpatialAudio.status s2 = active \<and>
               SpatialAudio.streamRef s2 = Some ms \<and>
               SpatialAudio.status s3 = ready \<and>
               nodesRef s3 = Some nodes \<and> source nodes = None \<and>
               contextState s3 (contextRef nodes) = Some running \<and>
               SpatialAudio.status s4 = SpatialAudioStatus.idle \<and>
               nodesRef s4 = None \<and>
               contextState s4 (contextRef nodes) = Some closed)"
proof -
  from initialize_success [OF assms(2,3)] obtain nodes where
    n: "nodesRef s1 = Some nodes" "source nodes = None"
       "contextRef nodes = length (contexts s0)"
       "pannerOutputs (panner nodes) = {}" "gainOutputs (SpatialAudioNodes.gain nodes) = {}"
    and st: "SpatialAudio.status s1 = ready"
    and alive: "contextState s1 (length (contexts s0)) = Some running"
    by blast
  from alive have len: "length (contexts s0) < length (contexts s1)"
    by (simp add: contextState_def split: if_splits)
  have roundtrip: "(disconnectAudioGraph (connectAudioGraph
                 (nodes\<lparr> source := Some (createMediaStreamSource ms) \<rparr>)))\<lparr> source := None \<rparr> = nodes"
    using n by (simp add: disconnectAudioGraph_def connectAudioGraph_def createMediaStreamSource_def)
  show ?thesis
    using n st alive len assms(4) roundtrip
    by (simp add: connectStream_def disconnectStream_def cleanup_def Let_def contextState_def
        closeAudioContext_def connectAudioGraph_def createMediaStreamSource_def)
qed

theorem lifecycle_scenario_A_witness:
  "(let s1 = snd (initialize defaultOptions hostOk (useSpatialAudio defaultOptions));
        s2 = snd (connectStream hostOk tabStream s1);
        s3 = disconnectStream s2;
        s4 = cleanup s3
    in SpatialAudio.status s1 = ready \<and> SpatialAudio.status s2 = active \<and>
       SpatialAudio.status s3 = ready \<and> contextState s3 0 = Some running \<and>
       SpatialAudio.status s4 = SpatialAudioStatus.idle \<and> contextState s4 0 = Some closed)"
proof -
  have i: "initialize defaultOptions hostOk (useSpatialAudio defaultOptions)
           = (Fulfilled True, snd (initialize defaultOptions hostOk (useSpatialAudio defaultOptions)))"
    by (simp add: initialize_def useSpatialAudio_def hostOk_def Let_def resumeAudioContext_def
        createAudioContext_def)
  have "SpatialAudio.status (useSpatialAudio defaultOptions) = SpatialAudioStatus.idle"
       "nodesRef (useSpatialAudio defaultOptions) = None" "mediaStreamSourceThrows hostOk = None"
    by (simp_all add: useSpatialAudio_def hostOk_def)
  from lifecycle_scenario_A [OF this(1,2) i this(3), of tabStream] show ?thesis
    by (auto simp: Let_def initialize_def useSpatialAudio_def hostOk_def resumeAudioContext_def
        createAudioContext_def split: prod.splits)
qed

text \<open>An \<open>initialize\<close> that does not return \<open>true\<close> sets no nodes.\<close>

lemma initialize_not_true:
  assumes "nodesRef s = None" and "fst (initialize options h s) \<noteq> Fulfilled True"
  shows "nodesRef (snd (initialize options h s)) = None"
  using assms
  by (auto simp: initialize_def Let_def split: if_splits Promise.splits)

text \<open>
  C3. No-op safety. As long as no \<open>initialize\<close> has succeeded (the engine holds no nodes: never
  initialized, or after an \<open>initialize\<close> that did not return \<open>true\<close>), \<open>connectStream\<close> returns
  without throwing and leaves the state as it is, whatever the browser would do.
  \<open>disconnectStream\<close> leaves the state as it is when no source is attached (no nodes, or nodes
  without a source). \<open>cleanup\<close> leaves an engine without nodes as it is, and a second
  \<open>cleanup\<close> in a row changes nothing.
\<close>

theorem noop_safety:
  "(nodesRef s = None \<longrightarrow> connectStream h ms s = (None, s)) \<and>
   (nodesRef s = None \<and> fst (initialize options h0 s) \<noteq> Fulfilled True \<longrightarrow>
      connectStream h ms (snd (initialize options h0 s)) = (None, snd (initialize options h0 s))) \<and>
   (nodesRef s = None \<longrightarrow> disconnectStream s = s) \<and>
   (nodesRef s = Some nodes \<and> source nodes = None \<longrightarrow> disconnectStream s = s) \<and>
   (nodesRef s = None \<longrightarrow> cleanup s = s) \<and>
   cleanup (cleanup s) = cleanup s"
proof -
  have c: "connectStream h ms s' = (None, s')" if "nodesRef s' = None" for s'
    using that by (simp add: connectStream_def)
  have "nodesRef (cleanup s) = None"
    by (simp add: cleanup_def Let_def split: option.splits)
  then have "cleanup (cleanup s) = cleanup s"
    by (simp add: cleanup_def [of "cleanup s"])
  then show ?thesis
    using c initialize_not_true [of s options h0]
    by (auto simp: disconnectStream_def cleanup_def)
qed

theorem noop_safety_witness:
  "connectStream hostOk tabStream (useSpatialAudio defaultOptions)
     = (None, useSpatialAudio defaultOptions) \<and>
   connectStream hostOk tabStream
      (snd (initialize defaultOptions (hostOk\<lparr> audioContextThrows := True \<rparr>)
              (useSpatialAudio defaultOptions)))
     = (None, (useSpatialAudio defaultOptions)\<lparr> SpatialAudio.status := SpatialAudioStatus.error \<rparr>) \<and>
   disconnectStream (useSpatialAudio defaultOptions) = useSpatialAudio defaultOptions \<and>
   disconnectStream (snd (initialize defaultOptions hostOk (useSpatialAudio defaultOptions)))
     = snd (initialize defaultOptions hostOk (useSpatialAudio defaultOptions)) \<and>
   cleanup (useSpatialAudio defaultOptions) = useSpatialAudio defaultOptions \<and>
   cleanup (cleanup (snd (initialize defaultOptions hostOk (useSpatialAudio defaultOptions))))
     = cleanup (snd (initialize defaultOptions hostOk (useSpatialAudio defaultOptions)))"
proof -
  let ?s0 = "useSpatialAudio defaultOptions"
  let ?s1 = "snd (initialize defaultOptions hostOk ?s0)"
  have n0: "nodesRef ?s0 = None" by (simp add: useSpatialAudio_def)
  have f: "fst (initialize defaultOptions (hostOk\<lparr> audioContextThrows := True \<rparr>) ?s0) \<noteq> Fulfilled True"
          "snd (initialize defaultOptions (hostOk\<lparr> audioContextThrows := True \<rparr>) ?s0)
             = ?s0\<lparr> SpatialAudio.status := SpatialAudioStatus.error \<rparr>"
    by (simp_all add: initialize_def useSpatialAudio_def hostOk_def Let_def)
  have n1: "nodesRef ?s1 = Some \<lparr> contextRef = 0, source = None,
              panner = createPannerNode (mergeConfig DEFAULT_CONFIG (config defaultOptions)),
              gain = createGainNode (initialGain defaultOptions) \<rparr>"
    by (simp add: initialize_def useSpatialAudio_def hostOk_def Let_def resumeAudioContext_def
        createAudioContext_def)
  from noop_safety [of ?s0 hostOk tabStream defaultOptions "hostOk\<lparr> audioContextThrows := True \<rparr>"]
       noop_safety [where s = ?s1 and nodes = "\<lparr> contextRef = 0, source = None,
              panner = createPannerNode (mergeConfig DEFAULT_CONFIG (config defaultOptions)),
              gain = createGainNode (initialGain defaultOptions) \<rparr>"]
       n0 f n1
  show ?thesis by simp
qed

text \<open>
  C6. \<open>initialize\<close> on an engine that already holds its nodes returns \<open>true\<close> and leaves the
  state as it is; so does every \<open>initialize\<close> after one that returned \<open>true\<close>, whatever the
  options and the browser.
\<close>

theorem initialize_idempotent:
  "(nodesRef s \<noteq> None \<longrightarrow> initialize options h s = (Fulfilled True, s)) \<and>
   (initialize options h s = (Fulfilled True, s') \<longrightarrow>
      initialize options' h' s' = (Fulfilled True, s'))"
proof -
  have "nodesRef s' \<noteq> None" if "initialize options h s = (Fulfilled True, s')"
    using that
    by (auto simp: initialize_def Let_def split: if_splits Promise.splits)
  then show ?thesis
    by (auto simp: initialize_def)
qed

theorem initialize_idempotent_witness:
  "initialize defaultOptions (hostOk\<lparr> audioContextThrows := True \<rparr>)
      (snd (initialize defaultOptions hostOk (useSpatialAudio defaultOptions)))
     = (Fulfilled True, snd (initialize defaultOptions hostOk (useSpatialAudio defaultOptions))) \<and>
   SpatialAudio.status (snd (initialize defaultOptions hostOk (useSpatialAudio defaultOptions))) = ready"
proof -
  let ?s0 = "useSpatialAudio defaultOptions"
  let ?s1 = "snd (initialize defaultOptions hostOk ?s0)"
  have i: "initialize defaultOptions hostOk ?s0 = (Fulfilled True, ?s1)"
    by (simp add: initialize_def useSpatialAudio_def hostOk_def Let_def resumeAudioContext_def
        createAudioContext_def)
  have st: "SpatialAudio.status ?s1 = ready"
    by (simp add: initialize_def useSpatialAudio_def hostOk_def Let_def resumeAudioContext_def
        createAudioContext_def)
  from initialize_idempotent [of ?s0 defaultOptions hostOk ?s1 defaultOptions
         "hostOk\<lparr> audioContextThrows := True \<rparr>"] i st
  show ?thesis by simp
qed

lemma smoothed_refl: "smoothed p p"
  by (simp add: smoothed_def)

lemma smoothed_ramp:
  assumes "smoothed p q" and "timeConstant = 2 / 100"
  shows "smoothed p (setTargetAtTime target now timeConstant q)"
proof -
  from assms(1) have tk: "take (length (events p)) (events q) = events p"
    by (simp add: smoothed_def)
  have "length (take (length (events p)) (events q)) = min (length (events q)) (length (events p))"
    by simp
  with tk have le: "length (events p) \<le> length (events q)"
    by simp
  from assms le show ?thesis
    by (simp add: smoothed_def setTargetAtTime_def)
qed

lemma setPosition_smoothed:
  assumes "nodesRef s = Some n" and "nodesSmoothed n0 n"
  shows "\<exists>n'. nodesRef (setPosition now a b height s) = Some n' \<and> nodesSmoothed n0 n'"
proof -
  let ?n' = "n\<lparr> panner := updateSourcePosition now (panner n) (padToPosition3D a b height) 5 \<rparr>"
  have "nodesRef (setPosition now a b height s) = Some ?n'"
    using assms(1) by (simp add: setPosition_def Let_def)
  moreover have "nodesSmoothed n0 ?n'"
    using assms(2)
    by (simp add: nodesSmoothed_def updateSourcePosition_def Let_def smoothed_ramp)
  ultimately show ?thesis by blast
qed

lemma setGain_smoothed:
  assumes "nodesRef s = Some n" and "nodesSmoothed n0 n"
  shows "\<exists>n'. nodesRef (setGain now v s) = Some n' \<and> nodesSmoothed n0 n'"
proof -
  let ?n' = "n\<lparr> SpatialAudioNodes.gain := updateGain now (SpatialAudioNodes.gain n) v \<rparr>"
  have "nodesRef (setGain now v s) = Some ?n'"
    using assms(1) by (simp add: setGain_def)
  moreover have "nodesSmoothed n0 ?n'"
    using assms(2)
    by (simp add: nodesSmoothed_def updateGain_def Let_def smoothed_ramp)
  ultimately show ?thesis by blast
qed

lemma applyUpdate_smoothed:
  assumes "nodesRef s = Some n" and "nodesSmoothed n0 n"
  shows "\<exists>n'. nodesRef (applyUpdate u s) = Some n' \<and> nodesSmoothed n0 n'"
proof (cases u)
  case (PositionUpdate now a b height)
  with setPosition_smoothed [OF assms] show ?thesis by simp
next
  case (GainUpdate now v)
  with setGain_smoothed [OF assms] show ?thesis by simp
qed

lemma fold_applyUpdate_smoothed:
  assumes "nodesRef s = Some n" and "nodesSmoothed n0 n"
  shows "\<exists>n'. nodesRef (fold applyUpdate us s) = Some n' \<and> nodesSmoothed n0 n'"
  using assms
proof (induction us arbitrary: s n)
  case Nil
  then show ?case by simp
next
  case (Cons u us)
  from applyUpdate_smoothed [OF Cons.prems] obtain n1 where
    "nodesRef (applyUpdate u s) = Some n1" "nodesSmoothed n0 n1" by blast
  from Cons.IH [OF this] show ?case by simp
qed

text \<open>
  C7. On an engine that holds its nodes, every sequence of position and gain updates leaves
  the \<open>value\<close> attributes of the three position parameters and of the gain parameter
  unwritten, and adds to them only \<open>setTargetAtTime\<close> ramps with time constant 0.02 s.
  One \<open>setPosition(a, b, height)\<close> adds exactly the ramps to \<open>5a\<close>, \<open>5 height\<close> and \<open>-5b\<close>,
  one \<open>setGain(v)\<close> exactly the ramp to \<open>v\<close> clamped into \<open>[0, 1]\<close>.
\<close>

theorem updates_are_smoothed:
  assumes "nodesRef s = Some nodes"
  shows "(\<exists>nodes'. nodesRef (fold applyUpdate us s) = Some nodes' \<and> nodesSmoothed nodes nodes') \<and>
         nodesRef (setPosition now a b height s) =
           Some (nodes\<lparr> panner := (panner nodes)
             \<lparr> positionX := (positionX (panner nodes))
                  \<lparr> events := events (positionX (panner nodes)) @ [SetTargetAtTime (a * 5) now (2 / 100)] \<rparr>,
               positionY := (positionY (panner nodes))
                  \<lparr> events := events (positionY (panner nodes)) @ [SetTargetAtTime (height * 5) now (2 / 100)] \<rparr>,
               positionZ := (positionZ (panner nodes))
                  \<lparr> events := events (positionZ (panner nodes)) @ [SetTargetAtTime (- b * 5) now (2 / 100)] \<rparr> \<rparr> \<rparr>) \<and>
         nodesRef (setGain now v s) =
           Some (nodes\<lparr> SpatialAudioNodes.gain := (SpatialAudioNodes.gain nodes)
             \<lparr> GainNode.gain := (GainNode.gain (SpatialAudioNodes.gain nodes))
                  \<lparr> events := events (GainNode.gain (SpatialAudioNodes.gain nodes))
                       @ [SetTargetAtTime (max 0 (min 1 v)) now (2 / 100)] \<rparr> \<rparr> \<rparr>)"
proof -
  have "nodesSmoothed nodes nodes"
    by (simp add: nodesSmoothed_def smoothed_refl)
  from fold_applyUpdate_smoothed [OF assms this, where us = us] assms show ?thesis
    by (simp add: setPosition_def setGain_def updateSourcePosition_def updateGain_def
        setTargetAtTime_def padToPosition3D_def Let_def)
qed

theorem updates_are_smoothed_witness:
  "(let s = snd (initialize defaultOptions hostOk (useSpatialAudio defaultOptions))
    in map_option (\<lambda>n. events (positionX (panner n))) (nodesRef (setPosition 3 (- 1) 1 0 s))
         = Some [ValueWrite 0, SetTargetAtTime (- 5) 3 (2 / 100)] \<and>
       map_option (\<lambda>n. events (positionZ (panner n))) (nodesRef (setPosition 3 (- 1) 1 0 s))
         = Some [ValueWrite 1, SetTargetAtTime (- 5) 3 (2 / 100)] \<and>
       map_option (\<lambda>n. events (GainNode.gain (SpatialAudioNodes.gain n))) (nodesRef (setGain 4 1.7 s))
         = Some [ValueWrite 1, SetTargetAtTime 1 4 (2 / 100)] \<and>
       (\<exists>nodes'. nodesRef (fold applyUpdate [PositionUpdate 3 (- 1) 1 0, GainUpdate 4 1.7] s)
                    = Some nodes'))"
proof -
  let ?s = "snd (initialize defaultOptions hostOk (useSpatialAudio defaultOptions))"
  let ?n = "\<lparr> contextRef = 0, source = None,
              panner = createPannerNode (mergeConfig DEFAULT_CONFIG (config defaultOptions)),
              gain = createGainNode (initialGain defaultOptions) \<rparr>"
  have n: "nodesRef ?s = Some ?n"
    by (simp add: initialize_def useSpatialAudio_def hostOk_def Let_def resumeAudioContext_def
        createAudioContext_def)
  have ev: "\<And>cfg. events (positionX (createPannerNode cfg)) = [ValueWrite 0]"
            "\<And>cfg. events (positionZ (createPannerNode cfg)) = [ValueWrite 1]"
            "events (GainNode.gain (createGainNode (initialGain defaultOptions))) = [ValueWrite 1]"
    by (simp_all add: createPannerNode_def createGainNode_def setValue_def defaultParam_def
        defaultOptions_def)
  note t1 = updates_are_smoothed [OF n, where us = "[PositionUpdate 3 (- 1) 1 0, GainUpdate 4 1.7]"
         and now = 3 and a = "- 1" and b = 1 and height = 0 and v = 0]
  note t2 = updates_are_smoothed [OF n, where us = "[]" and now = 4 and v = "1.7"
         and a = 0 and b = 0 and height = 0]
  note p = t1 [THEN conjunct2, THEN conjunct1]
  note g = t2 [THEN conjunct2, THEN conjunct2]
  from t1 [THEN conjunct1]
  have f: "\<exists>nodes'. nodesRef (fold applyUpdate [PositionUpdate 3 (- 1) 1 0, GainUpdate 4 1.7] ?s)
                    = Some nodes'"
    by (elim exE conjE) (rule exI)
  have px: "map_option (\<lambda>n. events (positionX (panner n))) (nodesRef (setPosition 3 (- 1) 1 0 ?s))
         = Some [ValueWrite 0, SetTargetAtTime (- 5) 3 (2 / 100)]"
    by (simp add: p ev)
  have pz: "map_option (\<lambda>n. events (positionZ (panner n))) (nodesRef (setPosition 3 (- 1) 1 0 ?s))
         = Some [ValueWrite 1, SetTargetAtTime (- 5) 3 (2 / 100)]"
    by (simp add: p ev)
  have gg: "map_option (\<lambda>n. events (GainNode.gain (SpatialAudioNodes.gain n))) (nodesRef (setGain 4 1.7 ?s))
         = Some [ValueWrite 1, SetTargetAtTime 1 4 (2 / 100)]"
    by (simp add: g ev)
  show ?thesis
    unfolding Let_def by (intro conjI px pz gg f)
qed

text \<open>A live stream exists only in a browser with \<open>getDisplayMedia\<close>, with the support flag set.\<close>

lemma live_stream_supported:
  assumes "s \<in> captureReachable supported"
  shows "TabAudioCapture.streamRef s \<noteq> None \<longrightarrow> supported \<and> isSupported s"
  using assms
proof (induction rule: captureReachable.induct)
  case mounted
  then show ?case by (simp add: useTabAudioCapture_def)
next
  case (checked s)
  then show ?case by (simp add: checkSupport_def)
next
  case (started s g)
  then show ?case
    by (auto simp: startCapture_def getDisplayMedia_def Let_def
        split: if_splits option.splits Promise.splits list.splits)
next
  case (started_hooks s g)
  then show ?case
    by (auto simp: startCapture_hooks_def getDisplayMedia_def Let_def
        split: if_splits option.splits Promise.splits list.splits)
next
  case (stopped s)
  then show ?case by (simp add: stopCapture_def Let_def split: option.splits)
next
  case (ended s t)
  then show ?case by (simp add: trackEnded_def)
qed

text \<open>
  C10. In every state the capture hook reaches, when a captured stream is live (\<open>streamRef\<close>
  holds it) \<open>startCapture\<close> returns that stream and leaves the whole state as it is: the
  status, the error, and the number of \<open>getDisplayMedia\<close> requests made. This holds for both
  versions of the hook and does not depend on how a request would settle.
\<close>

theorem startCapture_reuses_live_stream:
  assumes "s \<in> captureReachable supported" and "TabAudioCapture.streamRef s = Some live"
  shows "startCapture g s = (Fulfilled (Some live), s) \<and>
         startCapture_hooks g s = (Fulfilled (Some live), s)"
proof -
  from live_stream_supported [OF assms(1)] assms(2) have "isSupported s" by simp
  with assms(2) show ?thesis
    by (simp add: startCapture_def startCapture_hooks_def)
qed

theorem startCapture_reuses_live_stream_witness:
  "(let s = snd (startCapture (Fulfilled tabStream) (checkSupport True useTabAudioCapture))
    in TabAudioCapture.streamRef s = Some tabStream \<and>
       TabAudioCapture.status s = capturing \<and> displayMediaRequests s = 1 \<and>
       startCapture (Rejected (ErrorNamed ''NotAllowedError'')) s = (Fulfilled (Some tabStream), s) \<and>
       startCapture_hooks (Fulfilled tabStream) s = (Fulfilled (Some tabStream), s))"
proof -
  let ?s = "snd (startCapture (Fulfilled tabStream) (checkSupport True useTabAudioCapture))"
  have "checkSupport True useTabAudioCapture \<in> captureReachable True"
    by (intro captureReachable.checked captureReachable.mounted)
  from captureReachable.started [OF this, of "Fulfilled tabStream"]
  have r: "?s \<in> captureReachable True"
    by (simp add: getDisplayMedia_def)
  have l: "TabAudioCapture.streamRef ?s = Some tabStream"
          "TabAudioCapture.status ?s = capturing" "displayMediaRequests ?s = 1"
    by (simp_all add: startCapture_def checkSupport_def useTabAudioCapture_def tabStream_def Let_def)
  from startCapture_reuses_live_stream [OF r l(1), of "Rejected (ErrorNamed ''NotAllowedError'')"]
       startCapture_reuses_live_stream [OF r l(1), of "Fulfilled tabStream"] l
  show ?thesis
    unfolding Let_def by blast
qed


text \<open>\<open>connectStream\<close> creates no context and keeps the context of the nodes.\<close>

lemma connectStream_frame:
  "contexts (snd (connectStream h ms e)) = contexts e \<and>
   map_option contextRef (nodesRef (snd (connectStream h ms e))) = map_option contextRef (nodesRef e)"
  by (simp add: connectStream_def Let_def connectAudioGraph_def disconnectAudioGraph_def
      createMediaStreamSource_def split: option.splits)

lemma startCapture_none:
  assumes "startCapture g c0 = (Fulfilled None, c1)" and "isSupported c1"
  shows "TabAudioCapture.streamRef c1 = None"
  using assms
  by (auto simp: startCapture_def Let_def
      split: if_splits option.splits Promise.splits list.splits)

lemma startCapture_requests:
  assumes "isSupported c" and "TabAudioCapture.streamRef c = None"
  shows "displayMediaRequests (snd (startCapture g c)) = displayMediaRequests c + 1"
  using assms
  by (simp add: startCapture_def Let_def split: Promise.splits list.splits)

lemma handleStart_initialized:
  assumes "nodesRef (spatial p) \<noteq> None"
  shows "capture (snd (handleStart h g p)) = snd (startCapture g (capture p)) \<and>
         contexts (spatial (snd (handleStart h g p))) = contexts (spatial p) \<and>
         map_option contextRef (nodesRef (spatial (snd (handleStart h g p))))
           = map_option contextRef (nodesRef (spatial p))"
proof -
  have i: "initialize defaultOptions h (spatial p) = (Fulfilled True, spatial p)"
    using assms by (simp add: initialize_def)
  obtain r c where sc: "startCapture g (capture p) = (r, c)"
    by (cases "startCapture g (capture p)")
  show ?thesis
  proof (cases r)
    case (Fulfilled v)
    show ?thesis
    proof (cases v)
      case None
      with Fulfilled i sc show ?thesis by (simp add: handleStart_def)
    next
      case (Some captured)
      obtain thrown e' where cs: "connectStream h captured (spatial p) = (thrown, e')"
        by (cases "connectStream h captured (spatial p)")
      from connectStream_frame [of h captured "spatial p"] cs
      have "contexts e' = contexts (spatial p)"
           "map_option contextRef (nodesRef e') = map_option contextRef (nodesRef (spatial p))"
        by simp_all
      with Some Fulfilled i sc cs show ?thesis
        by (cases thrown) (simp_all add: handleStart_def)
    qed
  next
    case (Rejected err)
    with i sc show ?thesis by (simp add: handleStart_def)
  next
    case Pending
    with i sc show ?thesis by (simp add: handleStart_def)
  qed
qed

text \<open>
  C8. Scenario B: the engine initializes and the capture yields no stream. Then \<open>handleStart\<close>
  ends before \<open>connectStream\<close>: the engine is left as \<open>initialize\<close> left it, with status
  \<open>ready\<close> and no source. In a second start, \<open>initialize\<close> returns \<open>true\<close> and changes nothing,
  whatever the browser would do; no context is created and the nodes keep their context; the
  capture hook ends in the state \<open>startCapture\<close> gives from the state after the failed
  capture, and, in a supporting browser, one more \<open>getDisplayMedia\<close> request has been made.
\<close>

theorem scenario_B:
  assumes "nodesRef (spatial p0) = None"
    and "initialize defaultOptions h (spatial p0) = (Fulfilled True, e1)"
    and "startCapture g (capture p0) = (Fulfilled None, c1)"
  shows "(let p1 = p0\<lparr> spatial := e1, capture := c1 \<rparr>;
              p2 = snd (handleStart h2 g2 p1)
          in handleStart h g p0 = (Fulfilled (), p1) \<and>
             SpatialAudio.status (spatial p1) = ready \<and>
             map_option source (nodesRef (spatial p1)) = Some None \<and>
             initialize defaultOptions h2 (spatial p1) = (Fulfilled True, spatial p1) \<and>
             capture p2 = snd (startCapture g2 (capture p1)) \<and>
             contexts (spatial p2) = contexts (spatial p1) \<and>
             map_option contextRef (nodesRef (spatial p2))
               = map_option contextRef (nodesRef (spatial p1)) \<and>
             (isSupported c1 \<longrightarrow>
                displayMediaRequests (capture p2) = displayMediaRequests c1 + 1))"
proof -
  let ?p1 = "p0\<lparr> spatial := e1, capture := c1 \<rparr>"
  from initialize_success [OF assms(1,2)] obtain nodes where
    st: "SpatialAudio.status e1 = ready" and n: "nodesRef e1 = Some nodes" "source nodes = None"
    by blast
  have first: "handleStart h g p0 = (Fulfilled (), ?p1)"
    using assms(2,3) by (simp add: handleStart_def)
  have again: "initialize defaultOptions h2 e1 = (Fulfilled True, e1)"
    using n by (simp add: initialize_def)
  have "nodesRef (spatial ?p1) \<noteq> None" using n by simp
  note second = handleStart_initialized [OF this, of h2 g2]
  have req: "displayMediaRequests (snd (startCapture g2 c1)) = displayMediaRequests c1 + 1"
    if "isSupported c1"
    using startCapture_requests [OF that startCapture_none [OF assms(3) that]] .
  show ?thesis
    unfolding Let_def
    using first st n again second req by simp
qed

theorem scenario_B_witness:
  "(let denied = Rejected (ErrorNamed ''NotAllowedError'');
        broken = hostOk\<lparr> audioContextThrows := True \<rparr>;
        p1 = snd (handleStart hostOk denied mountPlayer);
        p2 = snd (handleStart broken (Fulfilled tabStream) p1)
    in SpatialAudio.status (spatial p1) = ready \<and>
       TabAudioCapture.status (capture p1) = CaptureStatus.error \<and>
       TabAudioCapture.error (capture p1) = Some permission_denied \<and>
       displayMediaRequests (capture p1) = 1 \<and>
       displayMediaRequests (capture p2) = 2 \<and>
       contexts (spatial p2) = contexts (spatial p1) \<and>
       initialize defaultOptions broken (spatial p1) = (Fulfilled True, spatial p1))"
proof -
  let ?denied = "Rejected (ErrorNamed ''NotAllowedError'')"
  let ?broken = "hostOk\<lparr> audioContextThrows := True \<rparr>"
  let ?e1 = "snd (initialize defaultOptions hostOk (spatial mountPlayer))"
  let ?c1 = "snd (startCapture ?denied (capture mountPlayer))"
  have a1: "nodesRef (spatial mountPlayer) = None"
    by (simp add: mountPlayer_def useSpatialAudio_def)
  have a2: "initialize defaultOptions hostOk (spatial mountPlayer) = (Fulfilled True, ?e1)"
    by (simp add: initialize_def mountPlayer_def useSpatialAudio_def hostOk_def Let_def
        resumeAudioContext_def createAudioContext_def)
  have a3: "startCapture ?denied (capture mountPlayer) = (Fulfilled None, ?c1)"
    by (simp add: startCapture_def mountPlayer_def useTabAudioCapture_def Let_def)
  have c: "isSupported ?c1" "TabAudioCapture.status ?c1 = CaptureStatus.error"
          "TabAudioCapture.error ?c1 = Some permission_denied" "displayMediaRequests ?c1 = 1"
    by (simp_all add: startCapture_def mountPlayer_def useTabAudioCapture_def Let_def
        classifyThrown_def)
  let ?p1 = "mountPlayer\<lparr> spatial := ?e1, capture := ?c1 \<rparr>"
  let ?p2 = "snd (handleStart ?broken (Fulfilled tabStream) ?p1)"
  note t = scenario_B [OF a1 a2 a3, of ?broken "Fulfilled tabStream", unfolded Let_def]
  from t have p1: "snd (handleStart hostOk ?denied mountPlayer) = ?p1"
    by simp
  from t have st: "SpatialAudio.status (spatial ?p1) = ready"
    by (elim conjE)
  from t have again: "initialize defaultOptions ?broken (spatial ?p1) = (Fulfilled True, spatial ?p1)"
    by (elim conjE)
  from t have ctx: "contexts (spatial ?p2) = contexts (spatial ?p1)"
    by (elim conjE)
  from t c(1) have "displayMediaRequests (capture ?p2) = displayMediaRequests ?c1 + 1"
    by (elim conjE) (rule mp)
  with c(4) have d2: "displayMediaRequests (capture ?p2) = 2"
    by simp
  have cp: "capture ?p1 = ?c1" by simp
  show ?thesis
    unfolding Let_def p1
    by (intro conjI st again ctx d2) (simp_all only: cp c)
qed

text \<open>
  C4. On an initialized engine, \<open>setGain(-0.5)\<close> ramps the gain node to \<open>0\<close> and
  \<open>setGain(1.7)\<close> ramps it to \<open>1\<close>, but the \<open>gain\<close> state of the hook, which the volume
  display shows, stores \<open>-0.5\<close> and \<open>1.7\<close>: \<open>updateGain\<close> clamps, \<open>setGainState(value)\<close> does not.
\<close>

theorem setGain_stores_raw_value:
  "(let s = snd (initialize defaultOptions hostOk (useSpatialAudio defaultOptions))
    in SpatialAudio.gain (setGain 0 (- 0.5) s) = - 0.5 \<and>
       map_option (\<lambda>n. last (events (GainNode.gain (SpatialAudioNodes.gain n))))
           (nodesRef (setGain 0 (- 0.5) s)) = Some (SetTargetAtTime 0 0 0.02) \<and>
       SpatialAudio.gain (setGain 0 1.7 s) = 1.7 \<and>
       map_option (\<lambda>n. last (events (GainNode.gain (SpatialAudioNodes.gain n))))
           (nodesRef (setGain 0 1.7 s)) = Some (SetTargetAtTime 1 0 0.02))"
proof -
  let ?s = "snd (initialize defaultOptions hostOk (useSpatialAudio defaultOptions))"
  let ?n = "\<lparr> contextRef = 0, source = None,
              panner = createPannerNode (mergeConfig DEFAULT_CONFIG (config defaultOptions)),
              gain = createGainNode (initialGain defaultOptions) \<rparr>"
  have n: "nodesRef ?s = Some ?n"
    by (simp add: initialize_def useSpatialAudio_def hostOk_def Let_def resumeAudioContext_def
        createAudioContext_def)
  have "SpatialAudio.gain (setGain 0 v ?s) = v \<and>
        map_option (\<lambda>n. last (events (GainNode.gain (SpatialAudioNodes.gain n))))
           (nodesRef (setGain 0 v ?s)) = Some (SetTargetAtTime (max 0 (min 1 v)) 0 0.02)" for v
    using n by (simp add: setGain_def updateGain_def setTargetAtTime_def Let_def)
  from this [of "- 0.5"] this [of "1.7"] show ?thesis
    unfolding Let_def by simp
qed

text \<open>
  C9. After a successful start, the \<open>ended\<close> event of the captured audio track sets the capture
  status to \<open>idle\<close>, with no error, and drops the stream. The engine status stays \<open>active\<close>:
  the status display still shows "3D audio enabled" (not the "standing by" of the idle
  player), the stop control stays enabled and the start control disabled. Only \<open>handleStop\<close>
  brings the display back to "standing by".
\<close>

theorem revoked_sharing_keeps_active_display:
  "(let p1 = snd (handleStart hostOk (Fulfilled tabStream) mountPlayer);
        p2 = playerTrackEnded 1 p1
    in statusText mountPlayer = TextStandby \<and>
       statusText p1 = TextActive \<and>
       TabAudioCapture.status (capture p2) = CaptureStatus.idle \<and>
       TabAudioCapture.error (capture p2) = None \<and>
       TabAudioCapture.streamRef (capture p2) = None \<and>
       SpatialAudio.status (spatial p2) = active \<and>
       statusText p2 = TextActive \<and>
       canStop (SpatialAudio.status (spatial p2)) \<and>
       \<not> canStart (isSupported (capture p2)) (TabAudioCapture.status (capture p2))
             (SpatialAudio.status (spatial p2)) \<and>
       statusText (handleStop p2) = TextStandby)"
proof -
  let ?p1 = "snd (handleStart hostOk (Fulfilled tabStream) mountPlayer)"
  have i: "fst (initialize defaultOptions hostOk (useSpatialAudio defaultOptions)) = Fulfilled True"
          "nodesRef (snd (initialize defaultOptions hostOk (useSpatialAudio defaultOptions))) \<noteq> None"
    by (simp_all add: initialize_def useSpatialAudio_def hostOk_def Let_def resumeAudioContext_def
        createAudioContext_def)
  have c: "startCapture (Fulfilled tabStream) useTabAudioCapture
             = (Fulfilled (Some tabStream),
                useTabAudioCapture\<lparr> TabAudioCapture.status := capturing,
                  displayMediaRequests := 1, endedListeners := {1},
                  TabAudioCapture.streamRef := Some tabStream, stream := Some tabStream \<rparr>)"
    by (simp add: startCapture_def useTabAudioCapture_def tabStream_def Let_def)
  have p1: "SpatialAudio.status (spatial ?p1) = active"
           "nodesRef (spatial ?p1) \<noteq> None"
           "capture ?p1 = useTabAudioCapture\<lparr> TabAudioCapture.status := capturing,
                  displayMediaRequests := 1, endedListeners := {1},
                  TabAudioCapture.streamRef := Some tabStream, stream := Some tabStream \<rparr>"
    using i c
    by (auto simp: handleStart_def mountPlayer_def connectStream_def hostOk_def Let_def
        split: prod.splits Promise.splits option.splits)
  have stop: "SpatialAudio.status (cleanup e) = SpatialAudioStatus.idle" if "nodesRef e \<noteq> None" for e
    using that by (auto simp: cleanup_def Let_def)
  have stop': "nodesRef (disconnectStream e) \<noteq> None" if "nodesRef e \<noteq> None" for e
    using that by (auto simp: disconnectStream_def split: option.splits)
  show ?thesis
    unfolding Let_def
    using p1 stop [OF stop' [OF p1(2)]]
    by (simp add: statusText_def getStatusText_def playerTrackEnded_def trackEnded_def
        useTabAudioCapture_def canStop_def canStart_def isActive_def isLoading_def
        handleStop_def stopCapture_def mountPlayer_def useSpatialAudio_def Let_def)
qed

end
